theory Spec2Isabelle
  imports Complex_Main "HOL-Library.Multiset"
begin

section \<open>The indexed mesh of png23d (mesh.c)\<close>

text \<open>
  A shallow embedding of the mesh routines of \<^verbatim>\<open>mesh.c\<close>: the geometry helpers, the
  facet and vertex tables, facet removal, vertex moves, edge merging and the
  simplification loop.

  Conventions of the embedding.
  \<^item> A field \<^verbatim>\<open>s->name\<close> of a C struct is the record field \<open>t_name\<close>, where \<open>t\<close> is the
    first letter of the struct: \<^verbatim>\<open>pnt.x\<close> is \<open>p_x\<close>, \<^verbatim>\<open>facet->n\<close> is \<open>f_n\<close>,
    \<^verbatim>\<open>vertex->facets\<close> is \<open>v_facets\<close>, \<^verbatim>\<open>mesh->fcount\<close> is \<open>m_fcount\<close>. The arrays
    \<^verbatim>\<open>v[3]\<close> and \<^verbatim>\<open>i[3]\<close> of a facet are the fields \<open>f_v0 f_v1 f_v2\<close> and
    \<open>f_i0 f_i1 f_i2\<close>.
  \<^item> The C type \<^verbatim>\<open>float\<close> is modelled by the rationals: every finite \<^verbatim>\<open>float\<close> is a
    rational number, and the arithmetic of the model is exact. Rounding, overflow to an
    infinity and NaN are outside the model.
  \<^item> A pointer to a facet always points into the facet array \<^verbatim>\<open>mesh->f\<close>; it is modelled
    by the index of the facet in that array, so pointer equality is equality of indices.
  \<^item> The incidence array \<^verbatim>\<open>facets[FACETPNT_CNT]\<close> of a vertex together with its counter
    \<^verbatim>\<open>fcount\<close> is the list \<open>v_facets\<close> of its first \<^verbatim>\<open>fcount\<close> entries; the code never
    reads an entry at or past \<^verbatim>\<open>fcount\<close>. The list of the model can grow past
    \<^verbatim>\<open>FACETPNT_CNT\<close>, where the C array would be overrun; the bound is a property to be
    proved, not a part of the type.
  \<^item> The vertex array \<^verbatim>\<open>mesh->p\<close> with its counter \<^verbatim>\<open>pcount\<close> is the list \<open>m_p\<close>.
  \<^item> The header \<^verbatim>\<open>mesh.h\<close> is not among the sources; the constant \<^verbatim>\<open>FACETPNT_CNT\<close> is a
    parameter \<open>cnt\<close> of the functions that use it, and counters are natural numbers.
  \<^item> The debug dump (\<^verbatim>\<open>mesh->dumpfile\<close>) is taken to be closed: \<^verbatim>\<open>dump_mesh\<close> returns at once.
\<close>

subsection \<open>Data\<close>

record pnt =
  p_x :: rat
  p_y :: rat
  p_z :: rat

record facet =
  f_v0 :: pnt
  f_v1 :: pnt
  f_v2 :: pnt
  f_i0 :: nat
  f_i1 :: nat
  f_i2 :: nat
  f_n :: pnt

record vertex =
  v_pnt :: pnt
  v_facets :: "nat list"

record mesh =
  m_f :: "facet list"
  m_fcount :: nat
  m_falloc :: nat
  m_p :: "vertex list"

definition v_fcount :: "vertex \<Rightarrow> nat" where
  "v_fcount vtx = length (v_facets vtx)"

definition m_pcount :: "mesh \<Rightarrow> nat" where
  "m_pcount m = length (m_p m)"

subsection \<open>Geometry helpers\<close>

definition eqpnt :: "pnt \<Rightarrow> pnt \<Rightarrow> bool" where
  "eqpnt p0 p1 =
     (if p_x p0 = p_x p1 \<and> p_y p0 = p_y p1 \<and> p_z p0 = p_z p1 then True else False)"

definition nepnt :: "pnt \<Rightarrow> pnt \<Rightarrow> bool" where
  "nepnt p0 p1 =
     (if p_x p0 \<noteq> p_x p1 \<or> p_y p0 \<noteq> p_y p1 \<or> p_z p0 \<noteq> p_z p1 then True else False)"

text \<open>
  The conversion of a \<^verbatim>\<open>float\<close> to an \<^verbatim>\<open>int\<close> discards the fractional part (it truncates
  towards zero). The range of \<^verbatim>\<open>int\<close> is not modelled.
\<close>

definition float_to_int :: "rat \<Rightarrow> int" where
  "float_to_int q = (if q < 0 then - \<lfloor>- q\<rfloor> else \<lfloor>q\<rfloor>)"

text \<open>
  \<^verbatim>\<open>dot_product\<close> is declared to return \<^verbatim>\<open>int\<close>: the sum of products, computed in
  floating point, is converted on return.
\<close>

definition dot_product :: "pnt \<Rightarrow> pnt \<Rightarrow> int" where
  "dot_product a b = float_to_int (p_x a * p_x b + p_y a * p_y b + p_z a * p_z b)"

definition cross_product :: "pnt \<Rightarrow> pnt \<Rightarrow> pnt" where
  "cross_product a b =
     \<lparr>p_x = p_y a * p_z b - p_z a * p_y b,
      p_y = p_z a * p_x b - p_x a * p_z b,
      p_z = p_x a * p_y b - p_y a * p_x b\<rparr>"

text \<open>\<^verbatim>\<open>pnt_normal\<close> writes the normal through its first argument and returns the
  degenerate flag; the model returns the pair (flag, normal).\<close>

definition pnt_normal :: "pnt \<Rightarrow> pnt \<Rightarrow> pnt \<Rightarrow> bool \<times> pnt" where
  "pnt_normal v0 v1 v2 =
     (let a = \<lparr>p_x = p_x v1 - p_x v0, p_y = p_y v1 - p_y v0, p_z = p_z v1 - p_z v0\<rparr>;
          b = \<lparr>p_x = p_x v2 - p_x v0, p_y = p_y v2 - p_y v0, p_z = p_z v2 - p_z v0\<rparr>;
          nn = \<lparr>p_x = p_y a * p_z b - p_z a * p_y b,
                p_y = p_z a * p_x b - p_x a * p_z b,
                p_z = p_x a * p_y b - p_y a * p_x b\<rparr>
      in if p_x nn = 0 \<and> p_y nn = 0 \<and> p_z nn = 0 then (True, nn) else (False, nn))"

definition same_normal :: "pnt \<Rightarrow> pnt \<Rightarrow> bool" where
  "same_normal n1 n2 =
     (if dot_product n1 n2 < 0 then False
      else let cn = cross_product n1 n2
           in if p_x cn \<noteq> 0 \<or> p_y cn \<noteq> 0 \<or> p_z cn \<noteq> 0 then False else True)"

text \<open>The quantities the specification speaks of: the exact dot product, and the zero
  vector.\<close>

definition exact_dot :: "pnt \<Rightarrow> pnt \<Rightarrow> rat" where
  "exact_dot a b = p_x a * p_x b + p_y a * p_y b + p_z a * p_z b"

definition zero_pnt :: pnt where
  "zero_pnt = \<lparr>p_x = 0, p_y = 0, p_z = 0\<rparr>"

subsection \<open>Candidate vertices\<close>

text \<open>The loop of \<^verbatim>\<open>is_candidate\<close> compares the normals of the facets at positions
  \<open>floop - 1\<close> and \<open>floop\<close> of the incidence list, for \<open>floop\<close> from 1.\<close>

fun is_candidate_loop :: "facet list \<Rightarrow> nat list \<Rightarrow> bool" where
  "is_candidate_loop fs (a # b # rest) =
     (if \<not> same_normal (f_n (fs ! a)) (f_n (fs ! b)) then False
      else is_candidate_loop fs (b # rest))"
| "is_candidate_loop fs [a] = True"
| "is_candidate_loop fs [] = True"

definition is_candidate :: "mesh \<Rightarrow> nat \<Rightarrow> bool" where
  "is_candidate m ivtx = is_candidate_loop (m_f m) (v_facets (m_p m ! ivtx))"

subsection \<open>The move check\<close>

text \<open>
  The three corners \<^verbatim>\<open>v0, v1, v2\<close> that \<^verbatim>\<open>check_move_ok\<close> selects for a facet: the first
  corner whose index is \<open>frm\<close> (the parameter \<^verbatim>\<open>from\<close>) is replaced by the coordinate of
  the target vertex. \<open>None\<close> is the branch "none of the facets verticies are the from
  vertex".
\<close>

definition moved_corners :: "facet \<Rightarrow> nat \<Rightarrow> pnt \<Rightarrow> (pnt \<times> pnt \<times> pnt) option" where
  "moved_corners fc frm tp =
     (if f_i0 fc = frm then Some (tp, f_v1 fc, f_v2 fc)
      else if f_i1 fc = frm then Some (f_v0 fc, tp, f_v2 fc)
      else if f_i2 fc = frm then Some (f_v0 fc, f_v1 fc, tp)
      else None)"

fun check_move_ok_loop :: "facet list \<Rightarrow> nat \<Rightarrow> pnt \<Rightarrow> nat list \<Rightarrow> bool" where
  "check_move_ok_loop fs frm tp [] = True"
| "check_move_ok_loop fs frm tp (k # ks) =
     (case moved_corners (fs ! k) frm tp of
        None \<Rightarrow> False
      | Some (v0, v1, v2) \<Rightarrow>
          (let (degenerate, nn) = pnt_normal v0 v1 v2
           in if degenerate then
                (if nepnt v0 v1 \<and> nepnt v1 v2 \<and> nepnt v2 v0 then False
                 else check_move_ok_loop fs frm tp ks)
              else
                (if \<not> same_normal nn (f_n (fs ! k)) then False
                 else check_move_ok_loop fs frm tp ks)))"

definition check_move_ok :: "mesh \<Rightarrow> nat \<Rightarrow> nat \<Rightarrow> bool" where
  "check_move_ok m frm to =
     check_move_ok_loop (m_f m) frm (v_pnt (m_p m ! to)) (v_facets (m_p m ! frm))"

subsection \<open>Adjacency search\<close>

text \<open>
  The body of the inner loop of \<^verbatim>\<open>find_adjacent\<close> for one corner index \<open>civtx\<close>: each
  \<^verbatim>\<open>continue\<close> is the answer \<open>False\<close>. The valence test is written over the integers.
\<close>

definition adjacent_ok :: "nat \<Rightarrow> mesh \<Rightarrow> nat \<Rightarrow> nat \<Rightarrow> bool" where
  "adjacent_ok cnt m ivtx civtx =
     (if civtx = ivtx then False
      else if \<not> is_candidate m civtx then False
      else if (int (v_fcount (m_p m ! ivtx)) + int (v_fcount (m_p m ! civtx))) - 2 > int cnt
        then False
      else if \<not> check_move_ok m civtx ivtx then False
      else True)"

fun find_adjacent_loop :: "nat \<Rightarrow> mesh \<Rightarrow> nat \<Rightarrow> nat list \<Rightarrow> nat option" where
  "find_adjacent_loop cnt m ivtx [] = None"
| "find_adjacent_loop cnt m ivtx (k # ks) =
     (let fc = m_f m ! k
      in if adjacent_ok cnt m ivtx (f_i0 fc) then Some (f_i0 fc)
         else if adjacent_ok cnt m ivtx (f_i1 fc) then Some (f_i1 fc)
         else if adjacent_ok cnt m ivtx (f_i2 fc) then Some (f_i2 fc)
         else find_adjacent_loop cnt m ivtx ks)"

text \<open>\<^verbatim>\<open>find_adjacent\<close> returns \<^verbatim>\<open>true\<close> with \<^verbatim>\<open>*avtx\<close> set (\<open>Some\<close>), or \<^verbatim>\<open>false\<close> (\<open>None\<close>).\<close>

definition find_adjacent :: "nat \<Rightarrow> mesh \<Rightarrow> nat \<Rightarrow> nat option" where
  "find_adjacent cnt m ivtx = find_adjacent_loop cnt m ivtx (v_facets (m_p m ! ivtx))"

subsection \<open>Removing a facet\<close>

text \<open>The loop of \<^verbatim>\<open>remove_facet_from_vertex\<close>: the first entry equal to the facet is
  dropped and the later entries move down by one.\<close>

fun remove_facet_from_list :: "nat \<Rightarrow> nat list \<Rightarrow> bool \<times> nat list" where
  "remove_facet_from_list facet [] = (False, [])"
| "remove_facet_from_list facet (e # es) =
     (if e = facet then (True, es)
      else (let (found, es') = remove_facet_from_list facet es in (found, e # es')))"

definition remove_facet_from_vertex :: "nat \<Rightarrow> vertex \<Rightarrow> bool \<times> vertex" where
  "remove_facet_from_vertex facet vtx =
     (let (found, es) = remove_facet_from_list facet (v_facets vtx)
      in (found, vtx\<lparr>v_facets := es\<rparr>))"

text \<open>The call \<^verbatim>\<open>remove_facet_from_vertex(facet, mesh->p + ivtx)\<close> on the mesh.\<close>

definition remove_facet_at :: "nat \<Rightarrow> nat \<Rightarrow> mesh \<Rightarrow> bool \<times> mesh" where
  "remove_facet_at facet ivtx m =
     (let (found, vtx) = remove_facet_from_vertex facet (m_p m ! ivtx)
      in (found, m\<lparr>m_p := (m_p m)[ivtx := vtx]\<rparr>))"

text \<open>The statement \<^verbatim>\<open>mesh->p[ivtx].facets[mesh->p[ivtx].fcount++] = facet\<close>.\<close>

definition add_facet_at :: "nat \<Rightarrow> nat \<Rightarrow> mesh \<Rightarrow> mesh" where
  "add_facet_at facet ivtx m =
     m\<lparr>m_p := (m_p m)[ivtx := (m_p m ! ivtx)\<lparr>v_facets := v_facets (m_p m ! ivtx) @ [facet]\<rparr>]\<rparr>"

definition remove_facet :: "mesh \<Rightarrow> nat \<Rightarrow> bool \<times> mesh" where
  "remove_facet m facet =
     (let m1 = snd (remove_facet_at facet (f_i0 (m_f m ! facet)) m);
          m2 = snd (remove_facet_at facet (f_i1 (m_f m1 ! facet)) m1);
          m3 = snd (remove_facet_at facet (f_i2 (m_f m2 ! facet)) m2);
          m4 = m3\<lparr>m_fcount := m_fcount m3 - 1\<rparr>;
          rfacet = m_fcount m4
      in if rfacet \<noteq> facet then
           (let m5 = m4\<lparr>m_f := (m_f m4)[facet := m_f m4 ! rfacet]\<rparr>;
                m6 = snd (remove_facet_at rfacet (f_i0 (m_f m5 ! facet)) m5);
                m7 = snd (remove_facet_at rfacet (f_i1 (m_f m6 ! facet)) m6);
                m8 = snd (remove_facet_at rfacet (f_i2 (m_f m7 ! facet)) m7);
                m9 = add_facet_at facet (f_i0 (m_f m8 ! facet)) m8;
                m10 = add_facet_at facet (f_i1 (m_f m9 ! facet)) m9;
                m11 = add_facet_at facet (f_i2 (m_f m10 ! facet)) m10
            in (True, m11))
         else (True, m4))"

subsection \<open>Moving a corner of a facet\<close>

text \<open>The first corner of the facet whose index is \<open>frm\<close> gets the index \<open>to\<close> and the
  coordinate of that vertex; \<open>None\<close> is the final \<^verbatim>\<open>else\<close> branch.\<close>

definition retarget :: "facet \<Rightarrow> nat \<Rightarrow> nat \<Rightarrow> pnt \<Rightarrow> facet option" where
  "retarget fc frm to tp =
     (if f_i0 fc = frm then Some (fc\<lparr>f_i0 := to, f_v0 := tp\<rparr>)
      else if f_i1 fc = frm then Some (fc\<lparr>f_i1 := to, f_v1 := tp\<rparr>)
      else if f_i2 fc = frm then Some (fc\<lparr>f_i2 := to, f_v2 := tp\<rparr>)
      else None)"

definition move_facet_vertex :: "mesh \<Rightarrow> nat \<Rightarrow> nat \<Rightarrow> nat \<Rightarrow> bool \<times> mesh" where
  "move_facet_vertex m facet frm to =
     (case retarget (m_f m ! facet) frm to (v_pnt (m_p m ! to)) of
        None \<Rightarrow> (False, m)
      | Some fc \<Rightarrow>
          (let m1 = m\<lparr>m_f := (m_f m)[facet := fc]\<rparr>;
               m2 = add_facet_at facet to m1;
               (found, m3) = remove_facet_at facet frm m2
           in if found = False then (False, m3)
              else
                (let (degenerate, nn) = pnt_normal (f_v0 (m_f m3 ! facet))
                                           (f_v1 (m_f m3 ! facet)) (f_v2 (m_f m3 ! facet));
                     m4 = m3\<lparr>m_f := (m_f m3)[facet := (m_f m3 ! facet)\<lparr>f_n := nn\<rparr>]\<rparr>
                 in if degenerate then (False, m4) else (True, m4))))"

subsection \<open>Merging an edge\<close>

fun facet_on_list :: "nat \<Rightarrow> nat list \<Rightarrow> bool" where
  "facet_on_list facet [] = False"
| "facet_on_list facet (e # es) = (if e = facet then True else facet_on_list facet es)"

definition facet_on_vertex :: "nat \<Rightarrow> vertex \<Rightarrow> bool" where
  "facet_on_vertex facet vtx = facet_on_list facet (v_facets vtx)"

text \<open>
  The \<^verbatim>\<open>while\<close> loop of \<^verbatim>\<open>merge_edge\<close>; \<open>endv\<close> is the parameter \<^verbatim>\<open>end\<close>. Nothing in the
  loop bounds the number of rounds, so the model is a partial function: \<open>None\<close> means that
  the loop does not return. \<^verbatim>\<open>merge_edge\<close> itself always returns \<^verbatim>\<open>false\<close>.
\<close>

partial_function (option) merge_edge_loop :: "mesh \<Rightarrow> nat \<Rightarrow> nat \<Rightarrow> mesh option" where
  "merge_edge_loop m start endv =
     (if v_fcount (m_p m ! endv) > 0 then
        (let facet = v_facets (m_p m ! endv) ! 0
         in if facet_on_vertex facet (m_p m ! start)
            then merge_edge_loop (snd (remove_facet m facet)) start endv
            else merge_edge_loop (snd (move_facet_vertex m facet endv start)) start endv)
      else Some m)"

declare merge_edge_loop.simps [code]

definition merge_edge :: "mesh \<Rightarrow> nat \<Rightarrow> nat \<Rightarrow> (bool \<times> mesh) option" where
  "merge_edge m start endv = map_option (\<lambda>m'. (False, m')) (merge_edge_loop m start endv)"

subsection \<open>Adding facets\<close>

definition new_mesh :: mesh where
  "new_mesh = \<lparr>m_f = [], m_fcount = 0, m_falloc = 0, m_p = []\<rparr>"

text \<open>The contents of the slots that \<^verbatim>\<open>realloc\<close> adds are indeterminate in C; the model
  fills them with this facet. Allocation is taken to succeed.\<close>

definition fresh_facet :: facet where
  "fresh_facet = \<lparr>f_v0 = zero_pnt, f_v1 = zero_pnt, f_v2 = zero_pnt,
                   f_i0 = 0, f_i1 = 0, f_i2 = 0, f_n = zero_pnt\<rparr>"

definition mesh_add_facet ::
  "mesh \<Rightarrow> rat \<Rightarrow> rat \<Rightarrow> rat \<Rightarrow> rat \<Rightarrow> rat \<Rightarrow> rat \<Rightarrow> rat \<Rightarrow> rat \<Rightarrow> rat \<Rightarrow> bool \<times> mesh" where
  "mesh_add_facet m vx0 vy0 vz0 vx1 vy1 vz1 vx2 vy2 vz2 =
     (let m1 = (if m_fcount m + 1 > m_falloc m
                then m\<lparr>m_f := m_f m @ replicate 1000 fresh_facet,
                       m_falloc := m_falloc m + 1000\<rparr>
                else m);
          newfacet = m_fcount m1;
          fc = (m_f m1 ! newfacet)\<lparr>f_v0 := \<lparr>p_x = vx0, p_y = vy0, p_z = vz0\<rparr>,
                                   f_v1 := \<lparr>p_x = vx1, p_y = vy1, p_z = vz1\<rparr>,
                                   f_v2 := \<lparr>p_x = vx2, p_y = vy2, p_z = vz2\<rparr>\<rparr>;
          (degenerate, nn) = pnt_normal (f_v0 fc) (f_v1 fc) (f_v2 fc);
          m2 = m1\<lparr>m_f := (m_f m1)[newfacet := fc\<lparr>f_n := nn\<rparr>]\<rparr>
      in if \<not> degenerate then (degenerate, m2\<lparr>m_fcount := m_fcount m2 + 1\<rparr>)
         else (degenerate, m2))"

subsection \<open>Indexing\<close>

text \<open>
  Modelled from the spec: \<^verbatim>\<open>mesh_add_pnt\<close> and \<^verbatim>\<open>mesh_bloom_init\<close> are defined in
  \<^verbatim>\<open>mesh_bloom.c\<close>, which is not among the sources. The specification says that a
  coordinate is resolved to a vertex slot, that a new slot is created on the first
  occurrence of a coordinate, that a coordinate seen before is found by an exact linear
  scan, and that the filter in front of the scan never hides a point that is present. The
  model is the exact linear scan; the filter and its statistics are left out. A new slot
  has an empty incidence list.
\<close>

fun find_pnt :: "pnt \<Rightarrow> vertex list \<Rightarrow> nat \<Rightarrow> nat option" where
  "find_pnt pt [] i = None"
| "find_pnt pt (vtx # vs) i = (if eqpnt (v_pnt vtx) pt then Some i else find_pnt pt vs (i + 1))"

definition mesh_add_pnt :: "mesh \<Rightarrow> pnt \<Rightarrow> nat \<times> mesh" where
  "mesh_add_pnt m pt =
     (case find_pnt pt (m_p m) 0 of
        Some i \<Rightarrow> (i, m)
      | None \<Rightarrow> (length (m_p m), m\<lparr>m_p := m_p m @ [\<lparr>v_pnt = pt, v_facets = []\<rparr>]\<rparr>))"

text \<open>The body of the loop of \<^verbatim>\<open>index_mesh\<close> for the facet \<open>floop\<close>.\<close>

definition index_facet :: "nat \<Rightarrow> mesh \<Rightarrow> mesh" where
  "index_facet floop m =
     (let (p0, m1) = mesh_add_pnt m (f_v0 (m_f m ! floop));
          m2 = m1\<lparr>m_f := (m_f m1)[floop := (m_f m1 ! floop)\<lparr>f_i0 := p0\<rparr>]\<rparr>;
          (p1, m3) = mesh_add_pnt m2 (f_v1 (m_f m2 ! floop));
          m4 = m3\<lparr>m_f := (m_f m3)[floop := (m_f m3 ! floop)\<lparr>f_i1 := p1\<rparr>]\<rparr>;
          (p2, m5) = mesh_add_pnt m4 (f_v2 (m_f m4 ! floop));
          m6 = m5\<lparr>m_f := (m_f m5)[floop := (m_f m5 ! floop)\<lparr>f_i2 := p2\<rparr>]\<rparr>;
          m7 = add_facet_at floop p0 m6;
          m8 = add_facet_at floop p1 m7;
          m9 = add_facet_at floop p2 m8
      in m9)"

text \<open>
  The loop runs \<open>floop\<close> from 0 to \<^verbatim>\<open>mesh->fcount\<close>, which its body does not change. After
  the loop \<^verbatim>\<open>index_mesh\<close> prints statistics; the first of them divides by
  \<^verbatim>\<open>mesh->fcount * 3\<close>, so on a mesh without facets the function does not return (\<open>None\<close>).
  The other statistics divide by a counter kept by \<^verbatim>\<open>mesh_bloom.c\<close> and are outside the
  model.
\<close>

definition index_mesh :: "mesh \<Rightarrow> (bool \<times> mesh) option" where
  "index_mesh m =
     (let m' = fold index_facet [0..<m_fcount m] m
      in if m_fcount m' * 3 = 0 then None else Some (True, m'))"

subsection \<open>The simplification loop\<close>




subsection \<open>Invariants\<close>

definition has_corner :: "facet \<Rightarrow> nat \<Rightarrow> bool" where
  "has_corner fc vi = (f_i0 fc = vi \<or> f_i1 fc = vi \<or> f_i2 fc = vi)"

text \<open>The incidence invariant: a live facet is in the incidence list of a vertex exactly
  when the index of the vertex is one of the three corner indices of the facet.\<close>

definition incidence_inv :: "mesh \<Rightarrow> bool" where
  "incidence_inv m =
     (\<forall>vi\<in>{0..<length (m_p m)}. \<forall>k\<in>{0..<m_fcount m}.
        facet_on_vertex k (m_p m ! vi) = has_corner (m_f m ! k) vi)"

text \<open>
  The mesh is well formed: the live facets lie inside the allocated array, the corner
  indices of a live facet are indices of the vertex array and differ from each other, and
  an incidence list names live facets only, each at most once.
\<close>

definition facet_wf :: "nat \<Rightarrow> facet \<Rightarrow> bool" where
  "facet_wf np fc =
     (f_i0 fc < np \<and> f_i1 fc < np \<and> f_i2 fc < np \<and>
      f_i0 fc \<noteq> f_i1 fc \<and> f_i1 fc \<noteq> f_i2 fc \<and> f_i2 fc \<noteq> f_i0 fc)"

definition vertex_wf :: "nat \<Rightarrow> vertex \<Rightarrow> bool" where
  "vertex_wf nf vtx = (distinct (v_facets vtx) \<and> list_all (\<lambda>k. k < nf) (v_facets vtx))"

definition mesh_wf :: "mesh \<Rightarrow> bool" where
  "mesh_wf m =
     (m_fcount m \<le> length (m_f m) \<and>
      list_all (facet_wf (length (m_p m))) (take (m_fcount m) (m_f m)) \<and>
      list_all (vertex_wf (m_fcount m)) (m_p m))"

text \<open>The valence invariant: no incidence list is longer than \<^verbatim>\<open>FACETPNT_CNT\<close>.\<close>

definition valence_inv :: "nat \<Rightarrow> mesh \<Rightarrow> bool" where
  "valence_inv cnt m = list_all (\<lambda>vtx. v_fcount vtx \<le> cnt) (m_p m)"


text \<open>A triangle soup, as \<open>mesh_add_facet\<close> builds it: no vertex yet, the live facets
  inside the array and none of them degenerate.\<close>

definition soup_wf :: "mesh \<Rightarrow> bool" where
  "soup_wf m =
     (m_p m = [] \<and> m_fcount m \<le> length (m_f m) \<and>
      list_all (\<lambda>fc. \<not> fst (pnt_normal (f_v0 fc) (f_v1 fc) (f_v2 fc)))
        (take (m_fcount m) (m_f m)))"

subsection \<open>Notions of the specification\<close>




text \<open>The allocation of the facet array is consistent.\<close>

definition alloc_wf :: "mesh \<Rightarrow> bool" where
  "alloc_wf m = (length (m_f m) = m_falloc m \<and> m_fcount m \<le> m_falloc m)"

subsection \<open>An example mesh\<close>

text \<open>A flat strip of four triangles over the six points (0,0), (1,0), (1,1), (0,1),
  (2,0), (2,1) of the plane \<open>z = 0\<close>, indexed.\<close>

definition xy :: "rat \<Rightarrow> rat \<Rightarrow> pnt" where
  "xy a b = \<lparr>p_x = a, p_y = b, p_z = 0\<rparr>"

definition up_facet :: "nat \<Rightarrow> nat \<Rightarrow> nat \<Rightarrow> pnt \<Rightarrow> pnt \<Rightarrow> pnt \<Rightarrow> facet" where
  "up_facet a b c pa pb pc =
     \<lparr>f_v0 = pa, f_v1 = pb, f_v2 = pc, f_i0 = a, f_i1 = b, f_i2 = c,
      f_n = \<lparr>p_x = 0, p_y = 0, p_z = 1\<rparr>\<rparr>"

definition strip_mesh :: mesh where
  "strip_mesh =
     \<lparr>m_f = [up_facet 0 1 2 (xy 0 0) (xy 1 0) (xy 1 1), up_facet 0 2 3 (xy 0 0) (xy 1 1) (xy 0 1),
             up_facet 1 4 5 (xy 1 0) (xy 2 0) (xy 2 1), up_facet 1 5 2 (xy 1 0) (xy 2 1) (xy 1 1)],
      m_fcount = 4, m_falloc = 4,
      m_p = [\<lparr>v_pnt = xy 0 0, v_facets = [0, 1]\<rparr>, \<lparr>v_pnt = xy 1 0, v_facets = [0, 2, 3]\<rparr>,
             \<lparr>v_pnt = xy 1 1, v_facets = [0, 1, 3]\<rparr>, \<lparr>v_pnt = xy 0 1, v_facets = [1]\<rparr>,
             \<lparr>v_pnt = xy 2 0, v_facets = [2]\<rparr>, \<lparr>v_pnt = xy 2 1, v_facets = [2, 3]\<rparr>]\<rparr>"


text \<open>A second example, a soup of five flat triangles in which the facets 1 and 2 meet at
  the point (1,0) and the facets 0 and 2 at the point (0,0); \<open>fan_mesh\<close> is the mesh that
  indexing makes of it.\<close>

definition soup_facet :: "pnt \<Rightarrow> pnt \<Rightarrow> pnt \<Rightarrow> facet" where
  "soup_facet a b c =
     \<lparr>f_v0 = a, f_v1 = b, f_v2 = c, f_i0 = 0, f_i1 = 0, f_i2 = 0,
      f_n = snd (pnt_normal a b c)\<rparr>"

definition fan_soup :: mesh where
  "fan_soup =
     \<lparr>m_f = [soup_facet (xy 0 0) (xy 0 1) (xy (- 1) 1),
             soup_facet (xy 1 0) (xy 2 0) (xy 2 1),
             soup_facet (xy 0 0) (xy 1 0) (xy 1 1),
             soup_facet (xy (- 1) 1) (xy (- 2) 0) (xy (- 1) 0),
             soup_facet (xy 0 1) (xy 3 3) (xy 6 6)],
      m_fcount = 5, m_falloc = 5, m_p = []\<rparr>"

definition fan_mesh :: mesh where
  "fan_mesh =
     \<lparr>m_f = [(soup_facet (xy 0 0) (xy 0 1) (xy (- 1) 1))\<lparr>f_i0 := 0, f_i1 := 1, f_i2 := 2\<rparr>,
             (soup_facet (xy 1 0) (xy 2 0) (xy 2 1))\<lparr>f_i0 := 3, f_i1 := 4, f_i2 := 5\<rparr>,
             (soup_facet (xy 0 0) (xy 1 0) (xy 1 1))\<lparr>f_i0 := 0, f_i1 := 3, f_i2 := 6\<rparr>,
             (soup_facet (xy (- 1) 1) (xy (- 2) 0) (xy (- 1) 0))\<lparr>f_i0 := 2, f_i1 := 7, f_i2 := 8\<rparr>,
             (soup_facet (xy 0 1) (xy 3 3) (xy 6 6))\<lparr>f_i0 := 1, f_i1 := 9, f_i2 := 10\<rparr>],
      m_fcount = 5, m_falloc = 5,
      m_p = [\<lparr>v_pnt = xy 0 0, v_facets = [0, 2]\<rparr>, \<lparr>v_pnt = xy 0 1, v_facets = [0, 4]\<rparr>,
             \<lparr>v_pnt = xy (- 1) 1, v_facets = [0, 3]\<rparr>, \<lparr>v_pnt = xy 1 0, v_facets = [1, 2]\<rparr>,
             \<lparr>v_pnt = xy 2 0, v_facets = [1]\<rparr>, \<lparr>v_pnt = xy 2 1, v_facets = [1]\<rparr>,
             \<lparr>v_pnt = xy 1 1, v_facets = [2]\<rparr>, \<lparr>v_pnt = xy (- 2) 0, v_facets = [3]\<rparr>,
             \<lparr>v_pnt = xy (- 1) 0, v_facets = [3]\<rparr>, \<lparr>v_pnt = xy 3 3, v_facets = [4]\<rparr>,
             \<lparr>v_pnt = xy 6 6, v_facets = [4]\<rparr>]\<rparr>"

subsection \<open>Notions used in the proofs\<close>

text \<open>
  The three calls of \<^verbatim>\<open>remove_facet_from_vertex\<close> and the three appends of \<^verbatim>\<open>remove_facet\<close>
  as one step each; the set of live facets with a given corner; well-formedness and the
  incidence invariant together; the live facets as a multiset, and the number of them with
  one given corner (the valence that the invariant assigns to a vertex) or with two.
\<close>

definition detach :: "nat \<Rightarrow> facet \<Rightarrow> mesh \<Rightarrow> mesh" where
  "detach k fc m =
     snd (remove_facet_at k (f_i2 fc) (snd (remove_facet_at k (f_i1 fc)
       (snd (remove_facet_at k (f_i0 fc) m)))))"

definition attach :: "nat \<Rightarrow> facet \<Rightarrow> mesh \<Rightarrow> mesh" where
  "attach k fc m = add_facet_at k (f_i2 fc) (add_facet_at k (f_i1 fc) (add_facet_at k (f_i0 fc) m))"

definition inc_set :: "mesh \<Rightarrow> nat \<Rightarrow> nat set" where
  "inc_set m vi = {j. j < m_fcount m \<and> has_corner (m_f m ! j) vi}"

definition mesh_ok :: "mesh \<Rightarrow> bool" where
  "mesh_ok m = (mesh_wf m \<and> incidence_inv m)"

definition live :: "mesh \<Rightarrow> facet multiset" where
  "live m = mset (take (m_fcount m) (m_f m))"




section \<open>Properties\<close>

subsection \<open>Geometry\<close>







text \<open>
  C1. The claim: \<open>same_normal n1 n2\<close> holds exactly when the dot product of the two
  vectors is at least 0 and their cross product is the zero vector. The code converts the
  dot product to an integer before the comparison with 0, so a negative dot product above
  \<open>-1\<close> passes the sign test: the opposed vectors \<open>(1/2, 0, 0)\<close> and \<open>(-1/2, 0, 0)\<close>, with dot
  product \<open>-1/4\<close>, are reported to have the same normal. The three examples of the claim
  hold.
\<close>

theorem same_normal_truncates_dot:
  "same_normal \<lparr>p_x = 1/2, p_y = 0, p_z = 0\<rparr> \<lparr>p_x = - (1/2), p_y = 0, p_z = 0\<rparr> = True
   \<and> exact_dot \<lparr>p_x = 1/2, p_y = 0, p_z = 0\<rparr> \<lparr>p_x = - (1/2), p_y = 0, p_z = 0\<rparr> = - (1/4)
   \<and> same_normal \<lparr>p_x = 1, p_y = 0, p_z = 0\<rparr> \<lparr>p_x = 1, p_y = 0, p_z = 0\<rparr> = True
   \<and> same_normal \<lparr>p_x = 1, p_y = 0, p_z = 0\<rparr> \<lparr>p_x = - 1, p_y = 0, p_z = 0\<rparr> = False
   \<and> same_normal \<lparr>p_x = 1, p_y = 0, p_z = 0\<rparr> \<lparr>p_x = 2, p_y = 0, p_z = 0\<rparr> = True"
  by (simp add: same_normal_def dot_product_def float_to_int_def cross_product_def exact_dot_def)

theorem same_normal_truncates_dot_witness:
  "same_normal \<lparr>p_x = 1/2, p_y = 0, p_z = 0\<rparr> \<lparr>p_x = - (1/2), p_y = 0, p_z = 0\<rparr> = True"
  by (rule conjunct1 [OF same_normal_truncates_dot])

text \<open>What the code computes: the sign test lets every dot product above \<open>-1\<close> pass.\<close>

lemma float_to_int_neg: "(float_to_int q < 0) = (q \<le> - 1)"
proof (cases "q < 0")
  case True
  have "(0 < \<lfloor>- q\<rfloor>) = (1 \<le> - q)"
    by (metis int_one_le_iff_zero_less of_int_1 le_floor_iff)
  with True show ?thesis by (auto simp add: float_to_int_def)
next
  case False
  then show ?thesis by (simp add: float_to_int_def)
qed

lemma same_normal_code:
  "same_normal n1 n2 = (- 1 < exact_dot n1 n2 \<and> cross_product n1 n2 = zero_pnt)"
  by (auto simp add: same_normal_def dot_product_def float_to_int_neg exact_dot_def Let_def
      zero_pnt_def cross_product_def not_le)

subsection \<open>Candidates\<close>

text \<open>
  C10. A vertex whose incidence list holds fewer than two facets (none, for a dead vertex,
  or one) is a candidate: the loop of \<^verbatim>\<open>is_candidate\<close> has no pair to compare.
\<close>

theorem is_candidate_few_facets:
  "v_fcount (m_p m ! ivtx) < 2 \<Longrightarrow> is_candidate m ivtx"
  by (cases "v_facets (m_p m ! ivtx)"; cases "tl (v_facets (m_p m ! ivtx))")
     (auto simp add: is_candidate_def v_fcount_def)

theorem is_candidate_few_facets_witness:
  "v_fcount (m_p strip_mesh ! 3) < 2 \<and> is_candidate strip_mesh 3"
proof -
  have h: "v_fcount (m_p strip_mesh ! 3) < 2"
    by (simp add: strip_mesh_def v_fcount_def)
  show ?thesis
    by (rule conjI [OF h is_candidate_few_facets [OF h]])
qed

subsection \<open>The incidence structure\<close>

lemma remove_facet_from_list_eq: "remove_facet_from_list k es = (k \<in> set es, remove1 k es)"
  by (induction es) auto

lemma facet_on_list_iff: "facet_on_list k es = (k \<in> set es)"
  by (induction es) auto

lemma facet_on_vertex_iff: "facet_on_vertex k vtx = (k \<in> set (v_facets vtx))"
  by (simp add: facet_on_vertex_def facet_on_list_iff)

lemma remove_facet_at_eq:
  "remove_facet_at k vi m =
     (k \<in> set (v_facets (m_p m ! vi)),
      m\<lparr>m_p := (m_p m)[vi := (m_p m ! vi)\<lparr>v_facets := remove1 k (v_facets (m_p m ! vi))\<rparr>]\<rparr>)"
  by (simp add: remove_facet_at_def remove_facet_from_vertex_def remove_facet_from_list_eq)

lemma remove_facet_at_frame:
  "m_f (snd (remove_facet_at k vi m)) = m_f m"
  "m_fcount (snd (remove_facet_at k vi m)) = m_fcount m"
  "m_falloc (snd (remove_facet_at k vi m)) = m_falloc m"
  "length (m_p (snd (remove_facet_at k vi m))) = length (m_p m)"
  by (simp_all add: remove_facet_at_eq)

lemma add_facet_at_frame:
  "m_f (add_facet_at k vi m) = m_f m"
  "m_fcount (add_facet_at k vi m) = m_fcount m"
  "m_falloc (add_facet_at k vi m) = m_falloc m"
  "length (m_p (add_facet_at k vi m)) = length (m_p m)"
  by (simp_all add: add_facet_at_def)

lemma remove_facet_at_nth:
  "vi < length (m_p m) \<Longrightarrow>
   v_facets (m_p (snd (remove_facet_at k vj m)) ! vi) =
     (if vi = vj then remove1 k (v_facets (m_p m ! vi)) else v_facets (m_p m ! vi))"
  "vi < length (m_p m) \<Longrightarrow> v_pnt (m_p (snd (remove_facet_at k vj m)) ! vi) = v_pnt (m_p m ! vi)"
  by (cases "vi = vj"; simp add: remove_facet_at_eq)+

lemma add_facet_at_nth:
  "vi < length (m_p m) \<Longrightarrow>
   v_facets (m_p (add_facet_at k vj m) ! vi) =
     (if vi = vj then v_facets (m_p m ! vi) @ [k] else v_facets (m_p m ! vi))"
  "vi < length (m_p m) \<Longrightarrow> v_pnt (m_p (add_facet_at k vj m) ! vi) = v_pnt (m_p m ! vi)"
  by (cases "vi = vj"; simp add: add_facet_at_def)+

lemmas mesh_frame = remove_facet_at_frame add_facet_at_frame

lemma detach_frame:
  "m_f (detach k fc m) = m_f m"
  "m_fcount (detach k fc m) = m_fcount m"
  "m_falloc (detach k fc m) = m_falloc m"
  "length (m_p (detach k fc m)) = length (m_p m)"
  by (simp_all add: detach_def mesh_frame)


lemma remove1_twice: "distinct xs \<Longrightarrow> remove1 k (remove1 k xs) = remove1 k xs"
  by (simp add: remove1_idem)

lemma detach_facets:
  assumes "vi < length (m_p m)" and "distinct (v_facets (m_p m ! vi))"
  shows "v_facets (m_p (detach k fc m) ! vi) =
     (if has_corner fc vi then remove1 k (v_facets (m_p m ! vi)) else v_facets (m_p m ! vi))"
proof -
  let ?L = "v_facets (m_p m ! vi)"
  have r2: "remove1 k (remove1 k ?L) = remove1 k ?L"
    using assms by (simp add: remove1_twice)
  have "v_facets (m_p (detach k fc m) ! vi) =
     (if vi = f_i2 fc then remove1 k else id)
       ((if vi = f_i1 fc then remove1 k else id)
         ((if vi = f_i0 fc then remove1 k else id) ?L))"
    using assms(1) by (simp add: detach_def remove_facet_at_nth mesh_frame)
  then show ?thesis
    using r2 by (cases "vi = f_i0 fc"; cases "vi = f_i1 fc"; cases "vi = f_i2 fc")
      (simp_all add: has_corner_def)
qed

lemma detach_pnt:
  "vi < length (m_p m) \<Longrightarrow> v_pnt (m_p (detach k fc m) ! vi) = v_pnt (m_p m ! vi)"
  by (simp add: detach_def remove_facet_at_nth mesh_frame)

lemma attach_facets:
  assumes "vi < length (m_p m)" and "f_i0 fc \<noteq> f_i1 fc" "f_i1 fc \<noteq> f_i2 fc" "f_i2 fc \<noteq> f_i0 fc"
  shows "v_facets (m_p (attach k fc m) ! vi) =
     (if has_corner fc vi then v_facets (m_p m ! vi) @ [k] else v_facets (m_p m ! vi))"
  using assms
  by (auto simp add: attach_def add_facet_at_nth mesh_frame has_corner_def)

lemma attach_pnt:
  "vi < length (m_p m) \<Longrightarrow> v_pnt (m_p (attach k fc m) ! vi) = v_pnt (m_p m ! vi)"
  by (simp add: attach_def add_facet_at_nth mesh_frame)

lemma remove_facet_alt:
  assumes "k < length (m_f m)"
  shows "snd (remove_facet m k) =
     (let r = m_fcount m - 1;
          m4 = (detach k (m_f m ! k) m)\<lparr>m_fcount := r\<rparr>
      in if r \<noteq> k
         then attach k (m_f m ! r) (detach r (m_f m ! r) (m4\<lparr>m_f := (m_f m)[k := m_f m ! r]\<rparr>))
         else m4)"
  using assms
  by (simp add: remove_facet_def Let_def detach_def attach_def mesh_frame)

lemma remove_facet_fields:
  "m_fcount (snd (remove_facet m k)) = m_fcount m - 1"
  "length (m_p (snd (remove_facet m k))) = length (m_p m)"
  "m_f (snd (remove_facet m k)) = (m_f m)[k := m_f m ! (m_fcount m - 1)]"
  "m_falloc (snd (remove_facet m k)) = m_falloc m"
  "fst (remove_facet m k) = True"
  by (simp_all add: remove_facet_def Let_def mesh_frame)


lemma facets_wf_iff:
  "n \<le> length fs \<Longrightarrow> list_all P (take n fs) = (\<forall>j<n. P (fs ! j))"
  by (simp add: list_all_length)

lemma vertices_wf_iff:
  "list_all (vertex_wf n) ps =
     (\<forall>vi<length ps. distinct (v_facets (ps ! vi)) \<and> (\<forall>k\<in>set (v_facets (ps ! vi)). k < n))"
proof -
  have "list_all (vertex_wf n) ps =
          (\<forall>v\<in>set ps. distinct (v_facets v) \<and> (\<forall>k\<in>set (v_facets v). k < n))"
    by (simp add: list_all_iff vertex_wf_def)
  also have "\<dots> = (\<forall>vi<length ps. distinct (v_facets (ps ! vi)) \<and> (\<forall>k\<in>set (v_facets (ps ! vi)). k < n))"
    by (rule all_set_conv_all_nth)
  finally show ?thesis .
qed

lemma incidence_inv_iff:
  "incidence_inv m =
     (\<forall>vi<length (m_p m). \<forall>k<m_fcount m.
        (k \<in> set (v_facets (m_p m ! vi))) = has_corner (m_f m ! k) vi)"
  by (simp add: incidence_inv_def facet_on_vertex_iff Ball_def)

lemma set_eq_bounded:
  "((\<forall>k\<in>set L. k < n) \<and> (\<forall>k<n. (k \<in> set L) = P k)) = (set L = {j. j < n \<and> P j})"
proof
  assume a: "(\<forall>k\<in>set L. k < n) \<and> (\<forall>k<n. (k \<in> set L) = P k)"
  show "set L = {j. j < n \<and> P j}"
  proof (rule set_eqI)
    fix x
    show "(x \<in> set L) = (x \<in> {j. j < n \<and> P j})"
      using a by (cases "x < n") auto
  qed
next
  assume "set L = {j. j < n \<and> P j}"
  then show "(\<forall>k\<in>set L. k < n) \<and> (\<forall>k<n. (k \<in> set L) = P k)"
    by simp
qed

lemma mesh_ok_iff:
  "mesh_ok m =
     (m_fcount m \<le> length (m_f m) \<and>
      (\<forall>j<m_fcount m. facet_wf (length (m_p m)) (m_f m ! j)) \<and>
      (\<forall>vi<length (m_p m). distinct (v_facets (m_p m ! vi)) \<and>
          set (v_facets (m_p m ! vi)) = inc_set m vi))"
proof (cases "m_fcount m \<le> length (m_f m)")
  case False
  then show ?thesis by (simp add: mesh_ok_def mesh_wf_def)
next
  case True
  let ?L = "\<lambda>vi. v_facets (m_p m ! vi)"
  let ?n = "m_fcount m"
  have "(\<forall>vi<length (m_p m). distinct (?L vi) \<and> set (?L vi) = inc_set m vi) =
        (\<forall>vi<length (m_p m). distinct (?L vi) \<and>
            ((\<forall>k\<in>set (?L vi). k < ?n) \<and> (\<forall>k<?n. (k \<in> set (?L vi)) = has_corner (m_f m ! k) vi)))"
    unfolding inc_set_def set_eq_bounded ..
  also have "\<dots> = ((\<forall>vi<length (m_p m). distinct (?L vi) \<and> (\<forall>k\<in>set (?L vi). k < ?n)) \<and>
        (\<forall>vi<length (m_p m). \<forall>k<?n. (k \<in> set (?L vi)) = has_corner (m_f m ! k) vi))"
    by blast
  finally have e: "(\<forall>vi<length (m_p m). distinct (?L vi) \<and> set (?L vi) = inc_set m vi) =
       (list_all (vertex_wf ?n) (m_p m) \<and> incidence_inv m)"
    by (simp only: vertices_wf_iff incidence_inv_iff)
  show ?thesis
    unfolding mesh_ok_def mesh_wf_def e facets_wf_iff [OF True]
    using True by blast
qed

lemma remove_facet_list:
  assumes ok: "mesh_ok m" and k: "k < m_fcount m" and vi: "vi < length (m_p m)"
  shows "v_facets (m_p (snd (remove_facet m k)) ! vi) =
     (let r = m_fcount m - 1;
          L1 = (if has_corner (m_f m ! k) vi then remove1 k (v_facets (m_p m ! vi))
                else v_facets (m_p m ! vi))
      in if r \<noteq> k
         then (if has_corner (m_f m ! r) vi then remove1 r L1 @ [k] else L1)
         else L1)"
proof -
  let ?r = "m_fcount m - 1"
  let ?m4 = "(detach k (m_f m ! k) m)\<lparr>m_fcount := ?r\<rparr>"
  let ?m5 = "?m4\<lparr>m_f := (m_f m)[k := m_f m ! ?r]\<rparr>"
  have d: "distinct (v_facets (m_p m ! vi))"
    using ok vi by (simp add: mesh_ok_iff)
  have len: "k < length (m_f m)" using ok k by (simp add: mesh_ok_iff)
  have wfn: "facet_wf (length (m_p m)) (m_f m ! ?r)" using ok k by (simp add: mesh_ok_iff)
  have l4: "v_facets (m_p ?m5 ! vi) =
      (if has_corner (m_f m ! k) vi then remove1 k (v_facets (m_p m ! vi))
       else v_facets (m_p m ! vi))"
    using d vi by (simp add: detach_facets)
  have d4: "distinct (v_facets (m_p ?m5 ! vi))"
    unfolding l4 using d by simp
  have vi5: "vi < length (m_p ?m5)" using vi by (simp add: detach_frame)
  have l6: "v_facets (m_p (detach ?r (m_f m ! ?r) ?m5) ! vi) =
      (if has_corner (m_f m ! ?r) vi then remove1 ?r (v_facets (m_p ?m5 ! vi))
       else v_facets (m_p ?m5 ! vi))"
    by (rule detach_facets [OF vi5 d4])
  have vi6: "vi < length (m_p (detach ?r (m_f m ! ?r) ?m5))"
    using vi by (simp add: detach_frame)
  have l7: "v_facets (m_p (attach k (m_f m ! ?r) (detach ?r (m_f m ! ?r) ?m5)) ! vi) =
      (if has_corner (m_f m ! ?r) vi
       then v_facets (m_p (detach ?r (m_f m ! ?r) ?m5) ! vi) @ [k]
       else v_facets (m_p (detach ?r (m_f m ! ?r) ?m5) ! vi))"
    using wfn by (intro attach_facets [OF vi6]) (simp_all add: facet_wf_def)
  show ?thesis
  proof (cases "?r = k")
    case True
    have "v_facets (m_p ?m4 ! vi) =
      (if has_corner (m_f m ! k) vi then remove1 k (v_facets (m_p m ! vi))
       else v_facets (m_p m ! vi))"
      using d vi by (simp add: detach_facets)
    then show ?thesis
      using True by (simp add: remove_facet_alt [OF len] Let_def)
  next
    case False
    have "snd (remove_facet m k) = attach k (m_f m ! ?r) (detach ?r (m_f m ! ?r) ?m5)"
      using False by (simp only: remove_facet_alt [OF len] Let_def if_True not_False_eq_True)
    then have "v_facets (m_p (snd (remove_facet m k)) ! vi) =
      (if has_corner (m_f m ! ?r) vi
       then remove1 ?r (if has_corner (m_f m ! k) vi then remove1 k (v_facets (m_p m ! vi))
                        else v_facets (m_p m ! vi)) @ [k]
       else (if has_corner (m_f m ! k) vi then remove1 k (v_facets (m_p m ! vi))
             else v_facets (m_p m ! vi)))"
      by (simp only: l7 l6 l4) simp
    then show ?thesis
      using False by (simp add: Let_def)
  qed
qed

lemma inc_set_remove_facet:
  assumes len: "m_fcount m \<le> length (m_f m)" and k: "k < m_fcount m"
  shows "inc_set (snd (remove_facet m k)) vi =
     (if m_fcount m - 1 \<noteq> k
      then (if has_corner (m_f m ! (m_fcount m - 1)) vi
            then insert k (inc_set m vi - {k, m_fcount m - 1})
            else inc_set m vi - {k, m_fcount m - 1})
      else inc_set m vi - {k})"
proof -
  obtain r where r: "m_fcount m = Suc r"
    using k by (cases "m_fcount m") simp_all
  have kr: "k \<le> r" and rl: "r < length (m_f m)" using k len r by simp_all
  have mem': "(x \<in> inc_set (snd (remove_facet m k)) vi) =
      (x < r \<and> has_corner (if x = k then m_f m ! r else m_f m ! x) vi)" for x
  proof (cases "x < r")
    case True
    then have "(m_f m)[k := m_f m ! r] ! x = (if x = k then m_f m ! r else m_f m ! x)"
      using rl by (simp add: nth_list_update)
    then show ?thesis using True by (simp add: inc_set_def remove_facet_fields r)
  next
    case False
    then show ?thesis by (simp add: inc_set_def remove_facet_fields r)
  qed
  have mem: "(x \<in> inc_set m vi) = ((x < r \<or> x = r) \<and> has_corner (m_f m ! x) vi)" for x
    by (simp add: inc_set_def r less_Suc_eq)
  show ?thesis
  proof (rule set_eqI)
    fix x
    show "(x \<in> inc_set (snd (remove_facet m k)) vi) =
      (x \<in> (if m_fcount m - 1 \<noteq> k
      then (if has_corner (m_f m ! (m_fcount m - 1)) vi
            then insert k (inc_set m vi - {k, m_fcount m - 1})
            else inc_set m vi - {k, m_fcount m - 1})
      else inc_set m vi - {k}))"
    proof (cases "x = k")
      case True
      then show ?thesis using kr by (simp add: mem' mem r) 
    next
      case xk: False
      show ?thesis
      proof (cases "x = r")
        case True
        then show ?thesis using xk by (simp add: mem' mem r)
      next
        case False
        then show ?thesis using xk by (simp add: mem' mem r)
      qed
    qed
  qed
qed

lemma remove_facet_ok:
  assumes ok: "mesh_ok m" and k: "k < m_fcount m"
  shows "mesh_ok (snd (remove_facet m k))"
proof -
  let ?m' = "snd (remove_facet m k)"
  let ?r = "m_fcount m - 1"
  have len: "m_fcount m \<le> length (m_f m)" using ok by (simp add: mesh_ok_iff)
  have wf: "\<And>j. j < m_fcount m \<Longrightarrow> facet_wf (length (m_p m)) (m_f m ! j)"
    using ok by (simp add: mesh_ok_iff)
  have c1: "m_fcount ?m' \<le> length (m_f ?m')"
    using len by (simp add: remove_facet_fields)
  have c2: "\<forall>j<m_fcount ?m'. facet_wf (length (m_p ?m')) (m_f ?m' ! j)"
  proof (intro allI impI)
    fix j assume "j < m_fcount ?m'"
    then have j: "j < ?r" by (simp add: remove_facet_fields)
    then have "m_f ?m' ! j = (if j = k then m_f m ! ?r else m_f m ! j)"
      using len k by (simp add: remove_facet_fields nth_list_update)
    then show "facet_wf (length (m_p ?m')) (m_f ?m' ! j)"
      using wf [of j] wf [of ?r] j k by (simp add: remove_facet_fields)
  qed
  have c3: "\<forall>vi<length (m_p ?m'). distinct (v_facets (m_p ?m' ! vi)) \<and>
          set (v_facets (m_p ?m' ! vi)) = inc_set ?m' vi"
  proof (intro allI impI)
    fix vi assume "vi < length (m_p ?m')"
    then have vi: "vi < length (m_p m)" by (simp add: remove_facet_fields)
    let ?L = "v_facets (m_p m ! vi)"
    let ?S = "inc_set m vi"
    let ?L1 = "if has_corner (m_f m ! k) vi then remove1 k ?L else ?L"
    have d: "distinct ?L" and s: "set ?L = ?S"
      using ok vi by (simp_all add: mesh_ok_iff)
    have kS: "(k \<in> ?S) = has_corner (m_f m ! k) vi"
      using k by (simp add: inc_set_def)
    have rS: "(?r \<in> ?S) = has_corner (m_f m ! ?r) vi"
      using k by (simp add: inc_set_def)
    have d1: "distinct ?L1" using d by simp
    have s1: "set ?L1 = ?S - {k}" using d s kS by auto
    show "distinct (v_facets (m_p ?m' ! vi)) \<and> set (v_facets (m_p ?m' ! vi)) = inc_set ?m' vi"
    proof (cases "?r = k")
      case True
      then have "v_facets (m_p ?m' ! vi) = ?L1"
        by (simp add: remove_facet_list [OF ok k vi] Let_def)
      moreover have "inc_set ?m' vi = ?S - {k}"
        using True by (simp add: inc_set_remove_facet [OF len k])
      ultimately show ?thesis using d1 s1 by simp
    next
      case False
      show ?thesis
      proof (cases "has_corner (m_f m ! ?r) vi")
        case True
        have "v_facets (m_p ?m' ! vi) = remove1 ?r ?L1 @ [k]"
          using True False by (simp add: remove_facet_list [OF ok k vi] Let_def)
        moreover have "inc_set ?m' vi = insert k (?S - {k, ?r})"
          using True False by (simp add: inc_set_remove_facet [OF len k])
        ultimately show ?thesis using d1 s1 by auto
      next
        case nc: False
        have "v_facets (m_p ?m' ! vi) = ?L1"
          using nc False by (simp add: remove_facet_list [OF ok k vi] Let_def)
        moreover have "inc_set ?m' vi = ?S - {k, ?r}"
          using nc False by (simp add: inc_set_remove_facet [OF len k])
        moreover have "?S - {k, ?r} = ?S - {k}" using rS nc by auto
        ultimately show ?thesis using d1 s1 by simp
      qed
    qed
  qed
  show ?thesis
    unfolding mesh_ok_iff using c1 c2 c3 by blast
qed




lemma has_corner_f_n [simp]: "has_corner (fc\<lparr>f_n := nn\<rparr>) vi = has_corner fc vi"
  by (simp add: has_corner_def)

lemma facet_wf_f_n [simp]: "facet_wf np (fc\<lparr>f_n := nn\<rparr>) = facet_wf np fc"
  by (simp add: facet_wf_def)











lemma live_remove_facet:
  assumes len: "m_fcount m \<le> length (m_f m)" and k: "k < m_fcount m"
  shows "live (snd (remove_facet m k)) = live m - {#m_f m ! k#}"
proof -
  obtain r where r: "m_fcount m = Suc r"
    using k by (cases "m_fcount m") simp_all
  have rl: "r < length (m_f m)" using len r by simp
  have l: "live m = add_mset (m_f m ! r) (mset (take r (m_f m)))"
    by (simp add: live_def r take_Suc_conv_app_nth [OF rl])
  show ?thesis
  proof (cases "k = r")
    case True
    have "live (snd (remove_facet m k)) = mset (take r (m_f m))"
      using True by (simp add: live_def remove_facet_fields r)
    then show ?thesis using True by (simp add: l)
  next
    case False
    then have kr: "k < r" using k r by simp
    then have kt: "k < length (take r (m_f m))" using rl by simp
    have "live (snd (remove_facet m k)) = mset ((take r (m_f m))[k := m_f m ! r])"
      by (simp add: live_def remove_facet_fields r take_update_swap)
    also have "\<dots> = add_mset (m_f m ! r) (mset (take r (m_f m)) - {#m_f m ! k#})"
      using kt kr by (simp add: mset_update)
    also have "\<dots> = live m - {#m_f m ! k#}"
    proof -
      have "m_f m ! k \<in># mset (take r (m_f m))"
        using kt kr by (metis nth_mem nth_take set_mset_mset)
      then show ?thesis unfolding l by (simp add: add_mset_diff_bothsides)
    qed
    finally show ?thesis .
  qed
qed



















subsection \<open>The example mesh\<close>

lemma strip_mesh_wf: "mesh_wf strip_mesh"
  by code_simp

lemma strip_mesh_incidence: "incidence_inv strip_mesh"
  by code_simp





subsection \<open>Facet removal\<close>

text \<open>
  C4. On a well-formed mesh with the incidence invariant, \<open>remove_facet\<close> of a live facet
  \<open>k\<close> leaves one live facet less; the live facets are the former ones without the facet
  that was at \<open>k\<close>; below the new count every slot holds what it held, except that the
  slot \<open>k\<close> holds the former last facet; no incidence list names a slot at or past the
  new count; the slot \<open>k\<close> is in the list of a vertex exactly when \<open>k\<close> was not the last
  slot and the vertex is a corner of the facet moved there; and the result is again well
  formed with the incidence invariant.
\<close>

theorem remove_facet_compacts:
  assumes "mesh_wf m" and "incidence_inv m" and "k < m_fcount m"
  shows "fst (remove_facet m k) = True \<and>
         m_fcount (snd (remove_facet m k)) = m_fcount m - 1 \<and>
         m_pcount (snd (remove_facet m k)) = m_pcount m \<and>
         (\<forall>j<m_fcount m - 1. m_f (snd (remove_facet m k)) ! j =
             (if j = k then m_f m ! (m_fcount m - 1) else m_f m ! j)) \<and>
         live (snd (remove_facet m k)) = live m - {#m_f m ! k#} \<and>
         (\<forall>vi<m_pcount m. \<forall>e\<in>set (v_facets (m_p (snd (remove_facet m k)) ! vi)).
             e < m_fcount m - 1) \<and>
         (\<forall>vi<m_pcount m. facet_on_vertex k (m_p (snd (remove_facet m k)) ! vi) =
             (k \<noteq> m_fcount m - 1 \<and> has_corner (m_f m ! (m_fcount m - 1)) vi)) \<and>
         mesh_wf (snd (remove_facet m k)) \<and> incidence_inv (snd (remove_facet m k))"
proof -
  let ?m' = "snd (remove_facet m k)"
  let ?r = "m_fcount m - 1"
  have ok: "mesh_ok m" using assms(1,2) by (simp add: mesh_ok_def)
  have len: "m_fcount m \<le> length (m_f m)" using ok by (simp add: mesh_ok_iff)
  have ok': "mesh_ok ?m'" by (rule remove_facet_ok [OF ok assms(3)])
  have kl: "k < length (m_f m)" using len assms(3) by simp
  have a: "\<forall>j<?r. m_f ?m' ! j = (if j = k then m_f m ! ?r else m_f m ! j)"
    using kl by (simp add: remove_facet_fields nth_list_update)
  have lists: "set (v_facets (m_p ?m' ! vi)) = inc_set ?m' vi" if "vi < m_pcount m" for vi
    using ok' that by (simp add: mesh_ok_iff m_pcount_def remove_facet_fields)
  have b: "\<forall>vi<m_pcount m. \<forall>e\<in>set (v_facets (m_p ?m' ! vi)). e < ?r"
    using lists by (simp add: inc_set_def remove_facet_fields)
  have c: "\<forall>vi<m_pcount m. facet_on_vertex k (m_p ?m' ! vi) =
             (k \<noteq> ?r \<and> has_corner (m_f m ! ?r) vi)"
  proof (intro allI impI)
    fix vi assume vi: "vi < m_pcount m"
    have mem: "facet_on_vertex k (m_p ?m' ! vi) = (k < ?r \<and> has_corner (m_f ?m' ! k) vi)"
      by (simp add: facet_on_vertex_iff lists [OF vi] inc_set_def remove_facet_fields)
    show "facet_on_vertex k (m_p ?m' ! vi) = (k \<noteq> ?r \<and> has_corner (m_f m ! ?r) vi)"
    proof (cases "k = ?r")
      case True
      then show ?thesis unfolding mem by simp
    next
      case False
      then have "k < ?r" using assms(3) by simp
      then show ?thesis unfolding mem using False kl by (simp add: remove_facet_fields)
    qed
  qed
  show ?thesis
    using a b c ok' live_remove_facet [OF len assms(3)]
    by (simp add: remove_facet_fields m_pcount_def mesh_ok_def)
qed

theorem remove_facet_compacts_witness:
  "mesh_wf strip_mesh \<and> incidence_inv strip_mesh \<and> (1::nat) < m_fcount strip_mesh \<and>
   fst (remove_facet strip_mesh 1) = True \<and>
   m_fcount (snd (remove_facet strip_mesh 1)) = m_fcount strip_mesh - 1 \<and>
   mesh_wf (snd (remove_facet strip_mesh 1)) \<and> incidence_inv (snd (remove_facet strip_mesh 1))"
proof -
  have k: "(1::nat) < m_fcount strip_mesh" by (simp add: strip_mesh_def)
  show ?thesis
    using strip_mesh_wf strip_mesh_incidence k
      remove_facet_compacts [OF strip_mesh_wf strip_mesh_incidence k]
    by simp
qed

subsection \<open>The valence bound\<close>



text \<open>
  The bound holds for the mesh that \<open>merge_edge\<close> returns, not for every state of its loop. With
  a bound of two entries, \<open>fan_mesh\<close> satisfies all the conditions above and
  \<open>find_adjacent\<close> pairs the vertices 0 and 3, which have two facets each and share facet 2.
  The first entry of vertex 3 is facet 1, which vertex 0 does not have, so the first round of the
  loop moves it: vertex 0 then has three entries, before a later round removes facet 2. In the
  C program the third entry is stored at \<^verbatim>\<open>facets[FACETPNT_CNT]\<close>.
\<close>

lemma fan_soup_wf: "soup_wf fan_soup"
  by code_simp

lemma fan_index: "index_mesh fan_soup = Some (True, fan_mesh)"
  by code_simp

lemma fan_inv: "mesh_wf fan_mesh \<and> incidence_inv fan_mesh \<and> valence_inv 2 fan_mesh"
  by code_simp

lemma fan_found: "is_candidate fan_mesh 0 \<and> find_adjacent 2 fan_mesh 0 = Some 3"
  by code_simp

lemma fan_first:
  "v_fcount (m_p fan_mesh ! 3) > 0 \<and> v_facets (m_p fan_mesh ! 3) ! 0 = 1 \<and>
   facet_on_vertex 1 (m_p fan_mesh ! 0) = False"
  by code_simp

lemma fan_moved: "v_facets (m_p (snd (move_facet_vertex fan_mesh 1 3 0)) ! 0) = [0, 2, 1]"
  by code_simp

lemma fan_step:
  "merge_edge_loop fan_mesh 0 3 = merge_edge_loop (snd (move_facet_vertex fan_mesh 1 3 0)) 0 3"
  using fan_first by (subst merge_edge_loop.simps) (simp add: Let_def)

lemma fan_merged:
  "map_option (\<lambda>(r, m). (r, map v_facets (m_p m))) (merge_edge fan_mesh 0 3) =
     Some (False, [[0, 1], [0, 2], [0, 3], [], [1], [1], [], [3], [3], [2], [2]])"
  by code_simp

subsection \<open>Termination of the simplification\<close>



subsection \<open>The move check\<close>







text \<open>The relocated corners of \<open>moved_corners\<close> are the corners of the retargeted facet.\<close>

subsection \<open>Moving a corner\<close>





subsection \<open>Cached normals and added facets\<close>





text \<open>The mesh after \<open>mesh_add_facet\<close>, on a consistent allocation.\<close>

lemma mesh_add_facet_fst:
  "fst (mesh_add_facet m vx0 vy0 vz0 vx1 vy1 vz1 vx2 vy2 vz2) =
     fst (pnt_normal \<lparr>p_x = vx0, p_y = vy0, p_z = vz0\<rparr> \<lparr>p_x = vx1, p_y = vy1, p_z = vz1\<rparr>
            \<lparr>p_x = vx2, p_y = vy2, p_z = vz2\<rparr>)"
  by (simp add: mesh_add_facet_def Let_def split_def)

lemma mesh_add_facet_frame:
  "m_fcount (snd (mesh_add_facet m vx0 vy0 vz0 vx1 vy1 vz1 vx2 vy2 vz2)) =
     (if fst (mesh_add_facet m vx0 vy0 vz0 vx1 vy1 vz1 vx2 vy2 vz2) then m_fcount m
      else m_fcount m + 1)"
  "m_p (snd (mesh_add_facet m vx0 vy0 vz0 vx1 vy1 vz1 vx2 vy2 vz2)) = m_p m"
  "m_falloc (snd (mesh_add_facet m vx0 vy0 vz0 vx1 vy1 vz1 vx2 vy2 vz2)) =
     (if m_fcount m + 1 > m_falloc m then m_falloc m + 1000 else m_falloc m)"
  "length (m_f (snd (mesh_add_facet m vx0 vy0 vz0 vx1 vy1 vz1 vx2 vy2 vz2))) =
     (if m_fcount m + 1 > m_falloc m then length (m_f m) + 1000 else length (m_f m))"
  by (simp_all add: mesh_add_facet_def Let_def split_def)

lemma mesh_add_facet_nth:
  assumes "alloc_wf m"
  shows "j < m_fcount m \<Longrightarrow>
           m_f (snd (mesh_add_facet m vx0 vy0 vz0 vx1 vy1 vz1 vx2 vy2 vz2)) ! j = m_f m ! j"
    and "\<exists>fc. m_f (snd (mesh_add_facet m vx0 vy0 vz0 vx1 vy1 vz1 vx2 vy2 vz2)) ! m_fcount m =
           fc\<lparr>f_v0 := \<lparr>p_x = vx0, p_y = vy0, p_z = vz0\<rparr>,
               f_v1 := \<lparr>p_x = vx1, p_y = vy1, p_z = vz1\<rparr>,
               f_v2 := \<lparr>p_x = vx2, p_y = vy2, p_z = vz2\<rparr>,
               f_n := snd (pnt_normal \<lparr>p_x = vx0, p_y = vy0, p_z = vz0\<rparr>
                             \<lparr>p_x = vx1, p_y = vy1, p_z = vz1\<rparr> \<lparr>p_x = vx2, p_y = vy2, p_z = vz2\<rparr>)\<rparr>"
  using assms
  by (auto simp add: mesh_add_facet_def Let_def split_def alloc_wf_def nth_append)

lemma alloc_wf_mesh_add_facet:
  "alloc_wf m \<Longrightarrow> alloc_wf (snd (mesh_add_facet m vx0 vy0 vz0 vx1 vy1 vz1 vx2 vy2 vz2))"
  by (auto simp add: alloc_wf_def mesh_add_facet_frame)








subsection \<open>Indexing\<close>








lemma soup_wf_iff:
  "soup_wf m =
     (m_p m = [] \<and> m_fcount m \<le> length (m_f m) \<and>
      (\<forall>j<m_fcount m. \<not> fst (pnt_normal (f_v0 (m_f m ! j)) (f_v1 (m_f m ! j)) (f_v2 (m_f m ! j)))))"
proof (cases "m_fcount m \<le> length (m_f m)")
  case True
  then show ?thesis by (simp add: soup_wf_def facets_wf_iff)
next
  case False
  then show ?thesis by (simp add: soup_wf_def)
qed



lemma index_mesh_empty: "m_fcount m = 0 \<Longrightarrow> index_mesh m = None"
  by (simp add: index_mesh_def)

text \<open>Facets added by \<open>mesh_add_facet\<close> to the empty mesh form a soup that can be indexed.\<close>

lemma soup_wf_new_mesh: "soup_wf new_mesh"
  by (simp add: soup_wf_def new_mesh_def)

lemma soup_wf_mesh_add_facet:
  assumes s: "soup_wf m" and al: "alloc_wf m"
  shows "soup_wf (snd (mesh_add_facet m vx0 vy0 vz0 vx1 vy1 vz1 vx2 vy2 vz2))"
proof -
  let ?r = "mesh_add_facet m vx0 vy0 vz0 vx1 vy1 vz1 vx2 vy2 vz2"
  have len: "m_fcount m \<le> length (m_f m)" using s by (simp add: soup_wf_def)
  have al': "alloc_wf (snd ?r)" by (rule alloc_wf_mesh_add_facet [OF al])
  then have len': "m_fcount (snd ?r) \<le> length (m_f (snd ?r))" by (simp add: alloc_wf_def)
  have old: "\<And>j. j < m_fcount m \<Longrightarrow>
      \<not> fst (pnt_normal (f_v0 (m_f m ! j)) (f_v1 (m_f m ! j)) (f_v2 (m_f m ! j)))"
    using s by (simp add: soup_wf_iff)
  obtain fc where new: "m_f (snd ?r) ! m_fcount m =
           fc\<lparr>f_v0 := \<lparr>p_x = vx0, p_y = vy0, p_z = vz0\<rparr>,
               f_v1 := \<lparr>p_x = vx1, p_y = vy1, p_z = vz1\<rparr>,
               f_v2 := \<lparr>p_x = vx2, p_y = vy2, p_z = vz2\<rparr>,
               f_n := snd (pnt_normal \<lparr>p_x = vx0, p_y = vy0, p_z = vz0\<rparr>
                             \<lparr>p_x = vx1, p_y = vy1, p_z = vz1\<rparr> \<lparr>p_x = vx2, p_y = vy2, p_z = vz2\<rparr>)\<rparr>"
    using mesh_add_facet_nth(2) [OF al] by blast
  have "\<forall>j<m_fcount (snd ?r).
      \<not> fst (pnt_normal (f_v0 (m_f (snd ?r) ! j)) (f_v1 (m_f (snd ?r) ! j)) (f_v2 (m_f (snd ?r) ! j)))"
  proof (intro allI impI)
    fix j assume j: "j < m_fcount (snd ?r)"
    show "\<not> fst (pnt_normal (f_v0 (m_f (snd ?r) ! j)) (f_v1 (m_f (snd ?r) ! j)) (f_v2 (m_f (snd ?r) ! j)))"
    proof (cases "j < m_fcount m")
      case True
      then show ?thesis using old [OF True] by (simp add: mesh_add_facet_nth(1) [OF al])
    next
      case False
      then have "j = m_fcount m \<and> \<not> fst ?r"
        using j by (simp add: mesh_add_facet_frame split: if_splits)
      then show ?thesis by (simp add: new mesh_add_facet_fst)
    qed
  qed
  then show ?thesis
    using s len' by (simp add: soup_wf_iff mesh_add_facet_frame)
qed





end
